theory Spec2Isabelle
  imports Complex_Main
begin

section \<open>JavaScript values\<close>

text \<open>
  The values that travel through the tool handlers: the parameters of an invocation, the
  arguments handed to the exchange client and the payloads it returns. Objects are
  association lists in key order; a number is a rational (the claims depend only on sign,
  integrality and comparison with a bound, never on rounding; NaN and the infinities are
  outside the model).
\<close>

datatype json =
    JUndefined
  | JNull
  | JBool bool
  | JNum rat
  | JStr string
  | JArr "json list"
  | JObj "(string \<times> json) list"

text \<open>Truthiness, as \<^verbatim>\<open>!price\<close> and \<^verbatim>\<open>if (meta)\<close> read it.\<close>

fun truthy :: "json \<Rightarrow> bool" where
  "truthy JUndefined = False"
| "truthy JNull = False"
| "truthy (JBool b) = b"
| "truthy (JNum r) = (r \<noteq> 0)"
| "truthy (JStr s) = (s \<noteq> [])"
| "truthy (JArr xs) = True"
| "truthy (JObj kvs) = True"

text \<open>
  Reading a property, as destructuring \<^verbatim>\<open>({ symbol, side, ... })\<close> and
  \<^verbatim>\<open>order.id\<close> do on a value that is neither \<^verbatim>\<open>null\<close> nor \<^verbatim>\<open>undefined\<close>: a
  key that is absent reads as \<^verbatim>\<open>undefined\<close>, and so does \<^verbatim>\<open>id\<close> on a primitive or an
  array. A handler is run on the validated parameters, which are an object.
\<close>

fun field :: "json \<Rightarrow> string \<Rightarrow> json" where
  "field (JObj kvs) k = (case map_of kvs k of Some v \<Rightarrow> v | None \<Rightarrow> JUndefined)"
| "field v k = JUndefined"

fun join :: "string \<Rightarrow> string list \<Rightarrow> string" where
  "join sep [] = []"
| "join sep [s] = s"
| "join sep (s # t # ss) = s @ sep @ join sep (t # ss)"

text \<open>
  Conversion to a string inside a template literal. The digits of a number are those of
  JavaScript's Number-to-String conversion, taken as the parameter \<open>num\<close>; objects are
  plain data and print as \<^verbatim>\<open>[object Object]\<close>.
\<close>

fun ToString :: "(rat \<Rightarrow> string) \<Rightarrow> json \<Rightarrow> string" where
  "ToString num JUndefined = ''undefined''"
| "ToString num JNull = ''null''"
| "ToString num (JBool b) = (if b then ''true'' else ''false'')"
| "ToString num (JNum r) = num r"
| "ToString num (JStr s) = s"
| "ToString num (JArr xs) =
     join '','' (map (\<lambda>x. if x = JUndefined \<or> x = JNull then [] else ToString num x) xs)"
| "ToString num (JObj kvs) = ''[object Object]''"

section \<open>Process-wide configuration and the exchange client\<close>

text \<open>
  The module-level constants read from the environment at load time. A variable that is
  not set is \<open>None\<close>; \<open>API_URL\<close>, \<open>WS_URL\<close> and \<open>API_EXPIRES_AFTER\<close> already hold their
  defaults.
\<close>

record config =
  API_KEY :: "string option"
  API_SECRET :: "string option"
  API_URL :: string
  WS_URL :: string
  API_EXPIRES_AFTER :: rat

text \<open>The options object given to \<^verbatim>\<open>new hollaex({...})\<close>.\<close>

record client_options =
  apiURL :: string
  wsURL :: string
  apiKey :: string
  apiSecret :: string
  apiExpiresAfter :: rat

text \<open>
  A thrown value: \<^verbatim>\<open>new Error(message)\<close>, or the \<^verbatim>\<open>TypeError\<close> of reading a property
  of \<^verbatim>\<open>null\<close> or \<^verbatim>\<open>undefined\<close>. A rejected promise of the exchange client is an error
  as well.
\<close>

datatype error = Error string | TypeError

text \<open>\<^verbatim>\<open>!API_KEY\<close>: the variable is unset or the empty string.\<close>

fun falsy_env :: "string option \<Rightarrow> bool" where
  "falsy_env None = True"
| "falsy_env (Some s) = (s = [])"

definition makeClient :: "config \<Rightarrow> error + client_options" where
  "makeClient cfg =
     (if falsy_env (API_KEY cfg) \<or> falsy_env (API_SECRET cfg) then
        Inl (Error ''Missing HOLLAEX_API_KEY or HOLLAEX_API_SECRET environment variables.'')
      else
        Inr \<lparr> apiURL = API_URL cfg, wsURL = WS_URL cfg,
              apiKey = the (API_KEY cfg), apiSecret = the (API_SECRET cfg),
              apiExpiresAfter = API_EXPIRES_AFTER cfg \<rparr>)"

text \<open>
  What a handler does to the outside world, in order: constructing a client, and calling
  one of its methods with an argument list.
\<close>

datatype event = Construct client_options | Invoke string "json list"

text \<open>
  The surroundings of a handler: the configuration, the exchange client library (for a
  client built with given options, what awaiting a method call on given arguments
  settles to: \<open>Inr\<close> a payload, \<open>Inl\<close> a rejection) and the Number-to-String conversion.
  Constructing a client only stores its options. What the handlers write to the
  diagnostic stream is not modelled.
\<close>

record runtime =
  env :: config
  hollaex :: "client_options \<Rightarrow> string \<Rightarrow> json list \<Rightarrow> error + json"
  numberToString :: "rat \<Rightarrow> string"

datatype content = Text string

record response =
  content :: "content list"
  structuredContent :: json

type_synonym outcome = "(error + response) \<times> event list"

definition formatResponse :: "string \<Rightarrow> json \<Rightarrow> response" where
  "formatResponse message sc = \<lparr> content = [Text message], structuredContent = sc \<rparr>"

text \<open>
  The frame shared by the handlers: \<^verbatim>\<open>const client = makeClient()\<close>, then
  \<^verbatim>\<open>const r = await client.method(...args)\<close>, then the rest \<open>k\<close> of the handler on the
  payload. A failing \<open>makeClient\<close> throws before anything is constructed or called.
\<close>

definition delegate ::
  "runtime \<Rightarrow> string \<Rightarrow> json list \<Rightarrow> (json \<Rightarrow> error + response) \<Rightarrow> outcome" where
  "delegate ctx method args k =
     (case makeClient (env ctx) of
        Inl e \<Rightarrow> (Inl e, [])
      | Inr opts \<Rightarrow>
          (case hollaex ctx opts method args of
             Inl e \<Rightarrow> (Inl e, [Construct opts, Invoke method args])
           | Inr r \<Rightarrow> (k r, [Construct opts, Invoke method args])))"

section \<open>The placeOrder handlers\<close>

text \<open>
  \<^verbatim>\<open>order.id\<close> inside the template literal: a \<^verbatim>\<open>TypeError\<close> when the client resolved
  with \<^verbatim>\<open>null\<close> or \<^verbatim>\<open>undefined\<close>, the converted property otherwise.
\<close>

definition placed :: "runtime \<Rightarrow> json \<Rightarrow> error + string" where
  "placed ctx order =
     (if order = JUndefined \<or> order = JNull then Inl TypeError
      else Inr (''Placed order '' @ ToString (numberToString ctx) (field order ''id'')))"

text \<open>
  The last argument of \<^verbatim>\<open>createOrder\<close>: the object \<^verbatim>\<open>opts\<close>, filled from \<^verbatim>\<open>stop\<close> and
  \<^verbatim>\<open>meta\<close>, or \<^verbatim>\<open>undefined\<close> when it has no key.
\<close>

definition createOrder_opts :: "json \<Rightarrow> json \<Rightarrow> json" where
  "createOrder_opts stop meta =
     (let opts = (if stop \<noteq> JUndefined then [(''stop'', stop)] else [])
               @ (if truthy meta then [(''meta'', meta)] else [])
      in if opts \<noteq> [] then JObj opts else JUndefined)"

text \<open>The handler of the full server (src/unnamed/part_001, lines 147-178).\<close>

definition placeOrder_handler :: "runtime \<Rightarrow> json \<Rightarrow> outcome" where
  "placeOrder_handler ctx a =
     (let symbol = field a ''symbol''; side = field a ''side''; size = field a ''size'';
          type = field a ''type''; price = field a ''price''; stop = field a ''stop'';
          meta = field a ''meta''
      in if type = JStr ''limit'' \<and> \<not> truthy price then
           (Inl (Error ''price is required for limit orders''), [])
         else
           let priceToSend = (if type = JStr ''limit'' then price else JNum 0)
           in delegate ctx ''createOrder''
                [symbol, side, size, type, priceToSend, createOrder_opts stop meta]
                (\<lambda>order. case placed ctx order of
                     Inl e \<Rightarrow> Inl e
                   | Inr text \<Rightarrow> Inr (formatResponse text order)))"

text \<open>The handler of the two-tool server (src/src/mcp-server.js, lines 115-145).\<close>

definition placeOrder_handler_basic :: "runtime \<Rightarrow> json \<Rightarrow> outcome" where
  "placeOrder_handler_basic ctx a =
     (let symbol = field a ''symbol''; side = field a ''side''; size = field a ''size'';
          type = field a ''type''; price = field a ''price''
      in if type = JStr ''limit'' \<and> \<not> truthy price then
           (Inl (Error ''price is required for limit orders''), [])
         else
           delegate ctx ''createOrder''
             [symbol, side, size, type, if type = JStr ''limit'' then price else JUndefined]
             (\<lambda>order. case placed ctx order of
                  Inl e \<Rightarrow> Inl e
                | Inr text \<Rightarrow>
                    Inr \<lparr> content = [Text text], structuredContent = order \<rparr>))"

section \<open>Declared schemas\<close>

text \<open>
  The schema declarations of the source, as data: \<^verbatim>\<open>z.string()\<close> is \<open>ZString\<close>,
  \<^verbatim>\<open>z.number().int().positive().max(50)\<close> is \<open>ZNumber [IsInt, Positive, Max 50]\<close>,
  \<^verbatim>\<open>s.optional()\<close> is \<open>ZOptional s\<close>, \<^verbatim>\<open>s.default(d)\<close> is \<open>ZDefault s d\<close>,
  \<^verbatim>\<open>z.array(s)\<close> is \<open>ZArray s False\<close> and \<^verbatim>\<open>z.array(s).nonempty()\<close> is \<open>ZArray s True\<close>,
  \<^verbatim>\<open>z.union([a, b])\<close> and \<^verbatim>\<open>a.or(b)\<close> are \<open>ZUnion [a, b]\<close>, \<^verbatim>\<open>z.record(z.string(), s)\<close> is
  \<open>ZRecord s\<close>, and \<^verbatim>\<open>z.object({...})\<close> is \<open>ZObject\<close> with its fields in order and its
  treatment of undeclared keys (\<^verbatim>\<open>.passthrough()\<close>, \<^verbatim>\<open>.catchall(s)\<close>, or dropping them).
  The \<^verbatim>\<open>.describe(...)\<close> texts are documentation and are left out.
\<close>

datatype check = IsInt | Positive | Max rat

datatype 'a unknown_keys = Strip | Passthrough | Catchall 'a

datatype schema =
    ZString
  | ZNumber "check list"
  | ZBoolean
  | ZEnum "string list"
  | ZUnknown
  | ZOptional schema
  | ZNullable schema
  | ZDefault schema json
  | ZArray schema bool
  | ZUnion "schema list"
  | ZRecord schema
  | ZObject "(string \<times> schema) list" "schema unknown_keys"

text \<open>A schema violation: where in the value it lies, and of what kind it is.\<close>

datatype segment = Key string | Index nat

datatype issue_code = invalid_type | too_small | too_big | invalid_enum_value | invalid_union

type_synonym issue = "segment list \<times> issue_code"

type_synonym parsed = "issue list + json"

fun check_issue :: "rat \<Rightarrow> check \<Rightarrow> issue list" where
  "check_issue r IsInt = (if of_int \<lfloor>r\<rfloor> = r then [] else [([], invalid_type)])"
| "check_issue r Positive = (if 0 < r then [] else [([], too_small)])"
| "check_issue r (Max m) = (if r \<le> m then [] else [([], too_big)])"

fun issues_at :: "segment \<Rightarrow> parsed \<Rightarrow> issue list" where
  "issues_at seg (Inl is) = map (\<lambda>i. (seg # fst i, snd i)) is"
| "issues_at seg (Inr v) = []"

fun value_of :: "parsed \<Rightarrow> json" where
  "value_of (Inr v) = v"
| "value_of (Inl is) = JUndefined"

definition finish :: "issue list \<Rightarrow> json \<Rightarrow> parsed" where
  "finish is v = (if is = [] then Inr v else Inl is)"

text \<open>
  Modelled from the spec: the validation routine that interprets a declared schema (the
  schema library is a dependency, not under src/). A value either satisfies the schema,
  giving the validated value (defaults filled in, undeclared keys of a plain object
  dropped), or violates it, giving the list of violations: required fields must be
  present, types correct, enumerated values within the allowed set, numeric fields
  within their declared constraints. An object reports the violations of all its fields.
\<close>

fun parse :: "schema \<Rightarrow> json \<Rightarrow> parsed" where
  "parse ZString v = (case v of JStr s \<Rightarrow> Inr v | _ \<Rightarrow> Inl [([], invalid_type)])"
| "parse (ZNumber cs) v =
     (case v of JNum r \<Rightarrow> finish (concat (map (check_issue r) cs)) v
      | _ \<Rightarrow> Inl [([], invalid_type)])"
| "parse ZBoolean v = (case v of JBool b \<Rightarrow> Inr v | _ \<Rightarrow> Inl [([], invalid_type)])"
| "parse (ZEnum vs) v =
     (case v of JStr s \<Rightarrow> if s \<in> set vs then Inr v else Inl [([], invalid_enum_value)]
      | _ \<Rightarrow> Inl [([], invalid_type)])"
| "parse ZUnknown v = Inr v"
| "parse (ZOptional s) v = (if v = JUndefined then Inr JUndefined else parse s v)"
| "parse (ZNullable s) v = (if v = JNull then Inr JNull else parse s v)"
| "parse (ZDefault s d) v = parse s (if v = JUndefined then d else v)"
| "parse (ZArray s nonempty) v =
     (case v of
        JArr xs \<Rightarrow>
          (let rs = map (parse s) xs
           in finish ((if nonempty \<and> xs = [] then [([], too_small)] else [])
                      @ concat (map (\<lambda>ir. issues_at (Index (fst ir)) (snd ir)) (enumerate 0 rs)))
                (JArr (map value_of rs)))
      | _ \<Rightarrow> Inl [([], invalid_type)])"
| "parse (ZUnion ss) v =
     (case find (\<lambda>r. \<not> isl r) (map (\<lambda>s. parse s v) ss) of
        Some r \<Rightarrow> r
      | None \<Rightarrow> Inl [([], invalid_union)])"
| "parse (ZRecord s) v =
     (case v of
        JObj kvs \<Rightarrow>
          (let rs = map (\<lambda>kv. (fst kv, parse s (snd kv))) kvs
           in finish (concat (map (\<lambda>kr. issues_at (Key (fst kr)) (snd kr)) rs))
                (JObj (map (\<lambda>kr. (fst kr, value_of (snd kr))) rs)))
      | _ \<Rightarrow> Inl [([], invalid_type)])"
| "parse (ZObject shape uk) v =
     (case v of
        JObj kvs \<Rightarrow>
          (let known = map (\<lambda>ks. (fst ks, parse (snd ks) (field v (fst ks)))) shape;
               extra = filter (\<lambda>kv. fst kv \<notin> set (map fst shape)) kvs;
               others = (case uk of
                           Strip \<Rightarrow> []
                         | Passthrough \<Rightarrow> map (\<lambda>kv. (fst kv, Inr (snd kv))) extra
                         | Catchall c \<Rightarrow> map (\<lambda>kv. (fst kv, parse c (snd kv))) extra);
               kept = filter (\<lambda>kr. value_of (snd kr) \<noteq> JUndefined
                                     \<or> fst kr \<in> set (map fst kvs)) known
           in finish (concat (map (\<lambda>kr. issues_at (Key (fst kr)) (snd kr)) (known @ others)))
                (JObj (map (\<lambda>kr. (fst kr, value_of (snd kr))) (kept @ others))))
      | _ \<Rightarrow> Inl [([], invalid_type)])"

section \<open>The tool catalog of the full server (src/unnamed/part_001)\<close>

text \<open>What \<^verbatim>\<open>server.registerTool(name, {...}, handler)\<close> registers.\<close>

record tool =
  name :: string
  title :: string
  description :: string
  inputSchema :: schema
  outputSchema :: schema
  handler :: "runtime \<Rightarrow> json \<Rightarrow> outcome"

definition genericOutputSchema :: schema where
  "genericOutputSchema = ZUnknown"

definition balanceOutputSchema :: schema where
  "balanceOutputSchema =
     ZObject [(''user_id'', ZOptional (ZNumber []))] (Catchall (ZNumber []))"

definition orderOutputSchema :: schema where
  "orderOutputSchema =
     ZObject
       [(''id'', ZString),
        (''symbol'', ZString),
        (''side'', ZString),
        (''size'', ZNumber []),
        (''type'', ZString),
        (''price'', ZOptional (ZNumber [])),
        (''status'', ZString),
        (''filled'', ZNumber []),
        (''average'', ZOptional (ZNullable (ZNumber []))),
        (''fee'', ZOptional (ZNumber [])),
        (''fee_coin'', ZOptional ZString),
        (''created_at'', ZString),
        (''updated_at'', ZString),
        (''fee_structure'',
           ZOptional (ZObject [(''maker'', ZNumber []), (''taker'', ZNumber [])] Strip)),
        (''stop'', ZOptional (ZNullable (ZNumber []))),
        (''meta'', ZOptional (ZRecord ZUnknown))]
       Passthrough"

definition cancelOutputSchema :: schema where
  "cancelOutputSchema =
     ZObject
       [(''id'', ZOptional ZString),
        (''order_id'', ZOptional ZString),
        (''message'', ZOptional ZString),
        (''status'', ZOptional ZString)]
       Passthrough"

definition getUserBalance_handler :: "runtime \<Rightarrow> json \<Rightarrow> outcome" where
  "getUserBalance_handler ctx a =
     delegate ctx ''getBalance'' []
       (\<lambda>balances. Inr (formatResponse ''Fetched user balances.'' balances))"

definition getUserBalance :: tool where
  "getUserBalance =
     \<lparr> name = ''getUserBalance'',
       title = ''Get User Balance'',
       description = ''Return the authenticated user balances from HollaEx.'',
       inputSchema = ZObject [] Strip,
       outputSchema = balanceOutputSchema,
       handler = getUserBalance_handler \<rparr>"

definition getBalance_handler :: "runtime \<Rightarrow> json \<Rightarrow> outcome" where
  "getBalance_handler ctx a =
     delegate ctx ''getBalance'' []
       (\<lambda>balances. Inr (formatResponse ''Fetched user balances.'' balances))"

definition getBalance :: tool where
  "getBalance =
     \<lparr> name = ''getBalance'',
       title = ''Get User Balance'',
       description = ''Return the authenticated user balances from HollaEx.'',
       inputSchema = ZObject [] Strip,
       outputSchema = balanceOutputSchema,
       handler = getBalance_handler \<rparr>"

definition placeOrder :: tool where
  "placeOrder =
     \<lparr> name = ''placeOrder'',
       title = ''Place Order'',
       description =
         ''Place a user order on HollaEx. Set type to market (no price) or limit (requires price).'',
       inputSchema =
         ZObject
           [(''symbol'', ZString),
            (''side'', ZEnum [''buy'', ''sell'']),
            (''size'', ZNumber [Positive]),
            (''type'', ZEnum [''limit'', ''market'']),
            (''price'', ZOptional (ZNumber [Positive])),
            (''stop'', ZOptional (ZNumber [Positive])),
            (''meta'',
               ZOptional
                 (ZObject [(''post_only'', ZOptional ZBoolean), (''note'', ZOptional ZString)]
                    Passthrough))]
           Strip,
       outputSchema = orderOutputSchema,
       handler = placeOrder_handler \<rparr>"

definition cancelOrder_handler :: "runtime \<Rightarrow> json \<Rightarrow> outcome" where
  "cancelOrder_handler ctx a =
     (let orderId = field a ''orderId''
      in delegate ctx ''cancelOrder'' [orderId]
           (\<lambda>result. Inr (formatResponse
               (''Canceled order '' @ ToString (numberToString ctx) orderId) result)))"

definition cancelOrder :: tool where
  "cancelOrder =
     \<lparr> name = ''cancelOrder'',
       title = ''Cancel Order'',
       description = ''Cancel an existing order by order ID.'',
       inputSchema = ZObject [(''orderId'', ZString)] Strip,
       outputSchema = cancelOutputSchema,
       handler = cancelOrder_handler \<rparr>"

definition getKit_handler :: "runtime \<Rightarrow> json \<Rightarrow> outcome" where
  "getKit_handler ctx a =
     delegate ctx ''getKit'' []
       (\<lambda>kit. Inr (formatResponse ''Fetched kit information.'' kit))"

definition getKit :: tool where
  "getKit =
     \<lparr> name = ''getKit'',
       title = ''Get Kit'',
       description = ''Get exchange information (name, languages, description).'',
       inputSchema = ZObject [] Strip,
       outputSchema = genericOutputSchema,
       handler = getKit_handler \<rparr>"

definition getConstants_handler :: "runtime \<Rightarrow> json \<Rightarrow> outcome" where
  "getConstants_handler ctx a =
     delegate ctx ''getConstants'' []
       (\<lambda>constants. Inr (formatResponse ''Fetched constants.'' constants))"

definition getConstants :: tool where
  "getConstants =
     \<lparr> name = ''getConstants'',
       title = ''Get Constants'',
       description =
         ''Retrieve tick size, min/max price, min/max size of each symbol pair and coin.'',
       inputSchema = ZObject [] Strip,
       outputSchema = genericOutputSchema,
       handler = getConstants_handler \<rparr>"

definition getTicker_handler :: "runtime \<Rightarrow> json \<Rightarrow> outcome" where
  "getTicker_handler ctx a =
     (let symbol = field a ''symbol''
      in delegate ctx ''getTicker'' [symbol]
           (\<lambda>ticker. Inr (formatResponse
               (''Fetched ticker for '' @ ToString (numberToString ctx) symbol @ ''.'') ticker)))"

definition getTicker :: tool where
  "getTicker =
     \<lparr> name = ''getTicker'',
       title = ''Get Ticker'',
       description = ''Retrieve 24h ticker data for a specific symbol.'',
       inputSchema = ZObject [(''symbol'', ZString)] Strip,
       outputSchema = genericOutputSchema,
       handler = getTicker_handler \<rparr>"

definition getTickers_handler :: "runtime \<Rightarrow> json \<Rightarrow> outcome" where
  "getTickers_handler ctx a =
     delegate ctx ''getTickers'' []
       (\<lambda>tickers. Inr (formatResponse ''Fetched tickers for all symbols.'' tickers))"

definition getTickers :: tool where
  "getTickers =
     \<lparr> name = ''getTickers'',
       title = ''Get Tickers'',
       description = ''Retrieve 24h ticker data for all symbols.'',
       inputSchema = ZObject [] Strip,
       outputSchema = genericOutputSchema,
       handler = getTickers_handler \<rparr>"

definition getOrderbook_handler :: "runtime \<Rightarrow> json \<Rightarrow> outcome" where
  "getOrderbook_handler ctx a =
     (let symbol = field a ''symbol''
      in delegate ctx ''getOrderbook'' [symbol]
           (\<lambda>orderbook. Inr (formatResponse
               (''Fetched orderbook for '' @ ToString (numberToString ctx) symbol @ ''.'')
               orderbook)))"

definition getOrderbook :: tool where
  "getOrderbook =
     \<lparr> name = ''getOrderbook'',
       title = ''Get Orderbook'',
       description = ''Retrieve orderbook for a symbol.'',
       inputSchema = ZObject [(''symbol'', ZString)] Strip,
       outputSchema = genericOutputSchema,
       handler = getOrderbook_handler \<rparr>"

definition getOrderbooks_handler :: "runtime \<Rightarrow> json \<Rightarrow> outcome" where
  "getOrderbooks_handler ctx a =
     delegate ctx ''getOrderbooks'' []
       (\<lambda>orderbooks. Inr (formatResponse ''Fetched orderbooks.'' orderbooks))"

definition getOrderbooks :: tool where
  "getOrderbooks =
     \<lparr> name = ''getOrderbooks'',
       title = ''Get Orderbooks'',
       description = ''Retrieve orderbooks for all symbols.'',
       inputSchema = ZObject [] Strip,
       outputSchema = genericOutputSchema,
       handler = getOrderbooks_handler \<rparr>"

definition getTrades_handler :: "runtime \<Rightarrow> json \<Rightarrow> outcome" where
  "getTrades_handler ctx a =
     (let symbol = field a ''symbol''
      in delegate ctx ''getTrades'' [JObj [(''symbol'', symbol)]]
           (\<lambda>trades. Inr (formatResponse
               (''Fetched recent trades''
                  @ (if truthy symbol then '' for '' @ ToString (numberToString ctx) symbol
                     else [])
                  @ ''.'')
               trades)))"

definition getTrades :: tool where
  "getTrades =
     \<lparr> name = ''getTrades'',
       title = ''Get Trades'',
       description = ''Retrieve recent trades; optionally filter by symbol.'',
       inputSchema = ZObject [(''symbol'', ZOptional ZString)] Strip,
       outputSchema = genericOutputSchema,
       handler = getTrades_handler \<rparr>"

definition getUser_handler :: "runtime \<Rightarrow> json \<Rightarrow> outcome" where
  "getUser_handler ctx a =
     delegate ctx ''getUser'' []
       (\<lambda>user. Inr (formatResponse ''Fetched user profile.'' user))"

definition getUser :: tool where
  "getUser =
     \<lparr> name = ''getUser'',
       title = ''Get User'',
       description = ''Retrieve the authenticated user's profile information.'',
       inputSchema = ZObject [] Strip,
       outputSchema = genericOutputSchema,
       handler = getUser_handler \<rparr>"

definition getUserTrades_handler :: "runtime \<Rightarrow> json \<Rightarrow> outcome" where
  "getUserTrades_handler ctx filters =
     delegate ctx ''getUserTrades'' [filters]
       (\<lambda>trades. Inr (formatResponse ''Fetched user trades.'' trades))"

definition getUserTrades :: tool where
  "getUserTrades =
     \<lparr> name = ''getUserTrades'',
       title = ''Get User Trades'',
       description = ''Retrieve the user's trade history.'',
       inputSchema =
         ZObject
           [(''symbol'', ZOptional ZString),
            (''limit'', ZOptional (ZNumber [IsInt, Positive, Max 50])),
            (''page'', ZOptional (ZNumber [IsInt, Positive])),
            (''orderBy'', ZOptional ZString),
            (''order'', ZOptional (ZEnum [''asc'', ''desc''])),
            (''startDate'', ZOptional ZString),
            (''endDate'', ZOptional ZString),
            (''format'', ZOptional (ZEnum [''all'', ''csv'']))]
           Strip,
       outputSchema = genericOutputSchema,
       handler = getUserTrades_handler \<rparr>"

definition getOrder_handler :: "runtime \<Rightarrow> json \<Rightarrow> outcome" where
  "getOrder_handler ctx a =
     (let orderId = field a ''orderId''
      in delegate ctx ''getOrder'' [orderId]
           (\<lambda>order. Inr (formatResponse
               (''Fetched order '' @ ToString (numberToString ctx) orderId @ ''.'') order)))"

definition getOrder :: tool where
  "getOrder =
     \<lparr> name = ''getOrder'',
       title = ''Get Order'',
       description = ''Retrieve a specific order by ID.'',
       inputSchema = ZObject [(''orderId'', ZString)] Strip,
       outputSchema = orderOutputSchema,
       handler = getOrder_handler \<rparr>"

definition getOrders_handler :: "runtime \<Rightarrow> json \<Rightarrow> outcome" where
  "getOrders_handler ctx filters =
     delegate ctx ''getOrders'' [filters]
       (\<lambda>orders. Inr (formatResponse ''Fetched orders.'' orders))"

definition getOrders :: tool where
  "getOrders =
     \<lparr> name = ''getOrders'',
       title = ''Get Orders'',
       description =
         ''Retrieve the list of user orders with optional filters (symbol, side, status).'',
       inputSchema =
         ZObject
           [(''symbol'', ZOptional ZString),
            (''side'', ZOptional (ZEnum [''buy'', ''sell''])),
            (''status'', ZOptional ZString),
            (''open'', ZOptional ZBoolean),
            (''limit'', ZOptional (ZNumber [IsInt, Positive, Max 50])),
            (''page'', ZOptional (ZNumber [IsInt, Positive])),
            (''orderBy'', ZOptional ZString),
            (''order'', ZOptional (ZEnum [''asc'', ''desc''])),
            (''startDate'', ZOptional ZString),
            (''endDate'', ZOptional ZString)]
           Strip,
       outputSchema = ZUnion [ZArray orderOutputSchema False, genericOutputSchema],
       handler = getOrders_handler \<rparr>"

definition cancelAllOrders_handler :: "runtime \<Rightarrow> json \<Rightarrow> outcome" where
  "cancelAllOrders_handler ctx a =
     (let symbol = field a ''symbol''
      in delegate ctx ''cancelAllOrders'' [symbol]
           (\<lambda>result. Inr (formatResponse
               (''Canceled all orders for '' @ ToString (numberToString ctx) symbol @ ''.'')
               result)))"

definition cancelAllOrders :: tool where
  "cancelAllOrders =
     \<lparr> name = ''cancelAllOrders'',
       title = ''Cancel All Orders'',
       description = ''Cancel all active orders for a specific trading pair symbol.'',
       inputSchema = ZObject [(''symbol'', ZString)] Strip,
       outputSchema = genericOutputSchema,
       handler = cancelAllOrders_handler \<rparr>"

definition getMiniCharts_handler :: "runtime \<Rightarrow> json \<Rightarrow> outcome" where
  "getMiniCharts_handler ctx a =
     (let assets = field a ''assets''; from = field a ''from''; to = field a ''to'';
          quote = field a ''quote''
      in delegate ctx ''getMiniCharts''
           [assets,
            JObj [(''from'', from), (''to'', to), (''quote'', quote), (''assets'', assets)]]
           (\<lambda>result. Inr (formatResponse ''Fetched mini charts.'' result)))"

definition getMiniCharts :: tool where
  "getMiniCharts =
     \<lparr> name = ''getMiniCharts'',
       title = ''Get Mini Charts'',
       description = ''Get trade history HOLCV for provided assets.'',
       inputSchema =
         ZObject
           [(''assets'', ZArray ZString True),
            (''from'', ZOptional ZString),
            (''to'', ZOptional ZString),
            (''quote'', ZOptional ZString)]
           Strip,
       outputSchema = genericOutputSchema,
       handler = getMiniCharts_handler \<rparr>"

definition getQuickTradeQuote_handler :: "runtime \<Rightarrow> json \<Rightarrow> outcome" where
  "getQuickTradeQuote_handler ctx a =
     (let spending_currency = field a ''spending_currency'';
          receiving_currency = field a ''receiving_currency'';
          spending_amount = field a ''spending_amount'';
          receiving_amount = field a ''receiving_amount''
      in delegate ctx ''getQuickTradeQuote''
           [spending_currency, receiving_currency,
            JObj [(''spending_amount'', spending_amount),
                  (''receiving_amount'', receiving_amount)]]
           (\<lambda>result. Inr (formatResponse ''Fetched quick trade quote.'' result)))"

definition getQuickTradeQuote :: tool where
  "getQuickTradeQuote =
     \<lparr> name = ''getQuickTradeQuote'',
       title = ''Get Quick Trade Quote'',
       description = ''Get a quick trade quote between two currencies.'',
       inputSchema =
         ZObject
           [(''spending_currency'', ZString),
            (''receiving_currency'', ZString),
            (''spending_amount'', ZOptional (ZUnion [ZString, ZNumber []])),
            (''receiving_amount'', ZOptional (ZUnion [ZString, ZNumber []]))]
           Strip,
       outputSchema = genericOutputSchema,
       handler = getQuickTradeQuote_handler \<rparr>"

definition executeOrder_handler :: "runtime \<Rightarrow> json \<Rightarrow> outcome" where
  "executeOrder_handler ctx a =
     (let token = field a ''token''
      in delegate ctx ''executeOrder'' [token]
           (\<lambda>result. Inr (formatResponse ''Executed order.'' result)))"

definition executeOrder :: tool where
  "executeOrder =
     \<lparr> name = ''executeOrder'',
       title = ''Execute Order'',
       description = ''Execute a pre-created order using its token.'',
       inputSchema = ZObject [(''token'', ZString)] Strip,
       outputSchema = genericOutputSchema,
       handler = executeOrder_handler \<rparr>"

text \<open>The tools in the order \<^verbatim>\<open>buildServer\<close> registers them.\<close>

definition buildServer :: "tool list" where
  "buildServer =
     [getUserBalance, getBalance, placeOrder, cancelOrder, getKit, getConstants, getTicker,
      getTickers, getOrderbook, getOrderbooks, getTrades, getUser, getUserTrades, getOrder,
      getOrders, cancelAllOrders, getMiniCharts, getQuickTradeQuote, executeOrder]"

section \<open>The tool catalog of the two-tool server (src/src/mcp-server.js)\<close>

definition getUserBalance_handler_basic :: "runtime \<Rightarrow> json \<Rightarrow> outcome" where
  "getUserBalance_handler_basic ctx a =
     delegate ctx ''getBalance'' []
       (\<lambda>balances. Inr \<lparr> content = [Text ''Fetched user balances.''],
                           structuredContent = balances \<rparr>)"

definition getUserBalance_basic :: tool where
  "getUserBalance_basic =
     \<lparr> name = ''getUserBalance'',
       title = ''Get User Balance'',
       description = ''Return the authenticated user balances from HollaEx.'',
       inputSchema = ZObject [] Strip,
       outputSchema = balanceOutputSchema,
       handler = getUserBalance_handler_basic \<rparr>"

definition placeOrder_basic :: tool where
  "placeOrder_basic =
     \<lparr> name = ''placeOrder'',
       title = ''Place Order'',
       description = ''Place a user order on HollaEx (limit or market).'',
       inputSchema =
         ZObject
           [(''symbol'', ZString),
            (''side'', ZEnum [''buy'', ''sell'']),
            (''size'', ZNumber [Positive]),
            (''type'', ZDefault (ZEnum [''limit'', ''market'']) (JStr ''limit'')),
            (''price'', ZOptional (ZNumber [Positive]))]
           Strip,
       outputSchema = orderOutputSchema,
       handler = placeOrder_handler_basic \<rparr>"

definition buildServer_basic :: "tool list" where
  "buildServer_basic = [getUserBalance_basic, placeOrder_basic]"

section \<open>Dispatch of an invocation\<close>

text \<open>
  The result of an invocation request: a dispatch miss, a rejection of the parameters with
  the violations found, or what running the handler gave (its response or the error it
  threw, with the events it caused).
\<close>

datatype invocation =
    ToolNotFound string
  | InvalidInput "issue list"
  | Handled outcome

text \<open>
  Modelled from the spec: the registry's entry point \<^verbatim>\<open>invoke(toolName, params)\<close> (the
  protocol server that holds the registered tools is a dependency, not under src/). It
  dispatches by tool name to the matching tool, validates the parameters against the
  tool's input schema, and only then runs the handler on the validated parameters. An
  unknown name is \<open>ToolNotFound\<close>; a violation is \<open>InvalidInput\<close> with its description, and
  the handler is not run. What the spec says of the handler's result afterwards (output
  validation, the error envelope of a thrown error) is not part of this definition.
\<close>

definition invoke :: "tool list \<Rightarrow> runtime \<Rightarrow> string \<Rightarrow> json \<Rightarrow> invocation" where
  "invoke tools ctx toolName params =
     (case find (\<lambda>t. name t = toolName) tools of
        None \<Rightarrow> ToolNotFound toolName
      | Some t \<Rightarrow>
          (case parse (inputSchema t) params of
             Inl issues \<Rightarrow> InvalidInput issues
           | Inr input \<Rightarrow> Handled (handler t ctx input)))"

text \<open>
  Modelled from the spec: tool listing, the authoritative list of the registered tools
  with their declarations. It reads neither the configuration nor the exchange client.
\<close>

definition listTools :: "tool list \<Rightarrow> (string \<times> string \<times> string \<times> schema \<times> schema) list" where
  "listTools tools =
     map (\<lambda>t. (name t, title t, description t, inputSchema t, outputSchema t)) tools"

section \<open>The HTTP application\<close>

datatype http_method = GET | POST | OPTIONS

record http_response =
  status :: nat
  body :: json

text \<open>
  What a route does: answer with a fixed response, or hand the request body to the
  protocol transport of a freshly built server.
\<close>

datatype route_action = Reply http_response | HandleMcp

type_synonym route = "http_method \<times> string \<times> route_action"

definition mcpPaths :: "string list" where
  "mcpPaths = [''/mcp'', ''/api/mcp'']"

definition healthPaths :: "string list" where
  "healthPaths = [''/health'', ''/api/mcp/health'']"

text \<open>The routes in the order \<^verbatim>\<open>createHttpApp\<close> registers them.\<close>

definition createHttpApp :: "route list" where
  "createHttpApp =
     concat (map (\<lambda>path.
         [(POST, path, HandleMcp),
          (OPTIONS, path, Reply \<lparr> status = 200, body = JObj [(''ok'', JBool True)] \<rparr>),
          (GET, path,
             Reply \<lparr> status = 200,
                     body = JObj [(''ok'', JBool True),
                                  (''message'', JStr ''POST MCP requests here'')] \<rparr>)])
       mcpPaths)
     @ map (\<lambda>path. (GET, path, Reply \<lparr> status = 200, body = JObj [(''ok'', JBool True)] \<rparr>))
         healthPaths"

text \<open>
  Modelled from the spec: the web framework's routing (a dependency, not under src/). A
  request is answered by the first registered route with its method and its path; \<open>None\<close>
  when the application registered none. The parameter \<open>mcp\<close> is the protocol transport:
  what it answers to a posted body in given surroundings, or the error it throws before
  answering, which the route turns into the status 500 with an internal-error envelope.
  A request is taken as the framework hands it to a route, its body already read.
\<close>

definition app_request ::
  "route list \<Rightarrow> (runtime \<Rightarrow> json \<Rightarrow> error + http_response) \<Rightarrow> runtime \<Rightarrow>
     http_method \<Rightarrow> string \<Rightarrow> json \<Rightarrow> http_response option" where
  "app_request app mcp ctx m path reqBody =
     (case find (\<lambda>r. fst r = m \<and> fst (snd r) = path) app of
        None \<Rightarrow> None
      | Some r \<Rightarrow>
          (case snd (snd r) of
             Reply resp \<Rightarrow> Some resp
           | HandleMcp \<Rightarrow>
               (case mcp ctx reqBody of
                  Inr resp \<Rightarrow> Some resp
                | Inl e \<Rightarrow>
                    Some \<lparr> status = 500,
                           body = JObj [(''jsonrpc'', JStr ''2.0''),
                                        (''error'',
                                           JObj [(''code'', JNum (- 32603)),
                                                 (''message'', JStr ''Internal server error'')]),
                                        (''id'', JNull)] \<rparr>)))"

section \<open>Facts about the frame, the validation and the dispatch\<close>

lemma makeClient_missing:
  "falsy_env (API_KEY cfg) \<or> falsy_env (API_SECRET cfg) \<Longrightarrow>
   makeClient cfg =
     Inl (Error ''Missing HOLLAEX_API_KEY or HOLLAEX_API_SECRET environment variables.'')"
  by (simp add: makeClient_def)

lemma delegate_throws:
  "makeClient (env ctx) = Inl e \<Longrightarrow> delegate ctx method args k = (Inl e, [])"
  by (simp add: delegate_def)

lemma delegate_settles:
  "makeClient (env ctx) = Inr opts \<Longrightarrow> hollaex ctx opts method args = Inr r \<Longrightarrow>
   delegate ctx method args k = (k r, [Construct opts, Invoke method args])"
  by (simp add: delegate_def)

lemma finish_Inl: "finish is v = Inl js \<Longrightarrow> js \<noteq> []"
  by (auto simp: finish_def split: if_splits)

text \<open>A rejection always carries at least one violation.\<close>

lemma parse_Inl_nonempty: "parse s v = Inl is \<Longrightarrow> is \<noteq> []"
proof (induction s v arbitrary: "is" rule: parse.induct)
  case (10 ss v)
  show ?case
  proof (cases "find (\<lambda>r. \<not> isl r) (map (\<lambda>s. parse s v) ss)")
    case None
    with "10.prems" show ?thesis by auto
  next
    case (Some r)
    then have "\<not> isl r" by (auto simp: find_Some_iff)
    with Some "10.prems" show ?thesis by auto
  qed
qed (auto split: json.splits if_splits dest: finish_Inl simp: Let_def)

lemma parse_object_form:
  "\<exists>others out. parse (ZObject shape uk) (JObj kvs) =
     finish (concat (map (\<lambda>kr. issues_at (Key (fst kr)) (snd kr))
               (map (\<lambda>ks. (fst ks, parse (snd ks) (field (JObj kvs) (fst ks)))) shape @ others)))
       out"
  apply (simp only: parse.simps json.case Let_def)
  apply (intro exI)
  apply (rule refl)
  done

text \<open>A field that violates its schema makes the object a violation, reported at that key.\<close>

lemma object_field_rejected:
  assumes "(k, s) \<in> set shape" and "parse s (field (JObj kvs) k) = Inl is" and "i \<in> set is"
  shows "\<exists>issues. parse (ZObject shape uk) (JObj kvs) = Inl issues
                \<and> (Key k # fst i, snd i) \<in> set issues"
proof -
  let ?known = "map (\<lambda>ks. (fst ks, parse (snd ks) (field (JObj kvs) (fst ks)))) shape"
  obtain others out where p: "parse (ZObject shape uk) (JObj kvs) =
     finish (concat (map (\<lambda>kr. issues_at (Key (fst kr)) (snd kr)) (?known @ others))) out"
    using parse_object_form by blast
  have "(k, Inl is) \<in> set ?known"
    using assms(1,2) by (force simp: image_iff)
  then have "(Key k # fst i, snd i) \<in> set (issues_at (Key k) (Inl is))
             \<and> (k, Inl is) \<in> set (?known @ others)"
    using assms(3) by (auto simp: image_iff intro: bexI[where x=i])
  then have m: "(Key k # fst i, snd i)
      \<in> set (concat (map (\<lambda>kr. issues_at (Key (fst kr)) (snd kr)) (?known @ others)))"
    unfolding set_concat set_map
    by (intro UN_I[where a="issues_at (Key k) (Inl is)"] image_eqI[where x="(k, Inl is)"]) auto
  then have "concat (map (\<lambda>kr. issues_at (Key (fst kr)) (snd kr)) (?known @ others)) \<noteq> []"
    by (metis empty_iff empty_set)
  with p m show ?thesis by (simp add: finish_def)
qed

lemma issues_at_origin:
  "i \<in> set (issues_at seg r) \<Longrightarrow> \<exists>is. r = Inl is \<and> (\<exists>j\<in>set is. i = (seg # fst j, snd j))"
  by (cases r) auto

text \<open>Every violation of a plain object comes from one of its declared fields.\<close>

lemma object_issue_origin:
  assumes "parse (ZObject shape Strip) (JObj kvs) = Inl issues" and "i \<in> set issues"
  shows "\<exists>k s is. (k, s) \<in> set shape \<and> parse s (field (JObj kvs) k) = Inl is
           \<and> (\<exists>j\<in>set is. i = (Key k # fst j, snd j))"
proof -
  have "issues = concat (map (\<lambda>ks. issues_at (Key (fst ks))
                                (parse (snd ks) (field (JObj kvs) (fst ks)))) shape)"
    using assms(1) by (simp add: Let_def finish_def comp_def del: field.simps split: if_splits)
  with assms(2) obtain ks where ks: "ks \<in> set shape"
      and i: "i \<in> set (issues_at (Key (fst ks)) (parse (snd ks) (field (JObj kvs) (fst ks))))"
    by (auto simp del: field.simps)
  from issues_at_origin [OF i] obtain "is" where
      "parse (snd ks) (field (JObj kvs) (fst ks)) = Inl is"
      and "\<exists>j\<in>set is. i = (Key (fst ks) # fst j, snd j)"
    by blast
  with ks show ?thesis
    by (intro exI[where x="fst ks"] exI[where x="snd ks"] exI[where x="is"]) simp
qed

lemma find_by_name:
  "distinct (map name tools) \<Longrightarrow> t \<in> set tools \<Longrightarrow>
   find (\<lambda>u. name u = name t) tools = Some t"
  by (induction tools) (auto simp: image_iff)

lemma buildServer_names:
  "map name buildServer =
     [''getUserBalance'', ''getBalance'', ''placeOrder'', ''cancelOrder'', ''getKit'',
      ''getConstants'', ''getTicker'', ''getTickers'', ''getOrderbook'', ''getOrderbooks'',
      ''getTrades'', ''getUser'', ''getUserTrades'', ''getOrder'', ''getOrders'',
      ''cancelAllOrders'', ''getMiniCharts'', ''getQuickTradeQuote'', ''executeOrder'']"
  by (simp add: buildServer_def getUserBalance_def getBalance_def placeOrder_def cancelOrder_def
      getKit_def getConstants_def getTicker_def getTickers_def getOrderbook_def getOrderbooks_def
      getTrades_def getUser_def getUserTrades_def getOrder_def getOrders_def cancelAllOrders_def
      getMiniCharts_def getQuickTradeQuote_def executeOrder_def)

lemma buildServer_basic_names:
  "map name buildServer_basic = [''getUserBalance'', ''placeOrder'']"
  by (simp add: buildServer_basic_def getUserBalance_basic_def placeOrder_basic_def)

lemma buildServer_distinct: "distinct (map name buildServer)"
  unfolding buildServer_names by simp

lemma buildServer_basic_distinct: "distinct (map name buildServer_basic)"
  unfolding buildServer_basic_names by simp

lemma invoke_known:
  "distinct (map name tools) \<Longrightarrow> t \<in> set tools \<Longrightarrow>
   invoke tools ctx (name t) params =
     (case parse (inputSchema t) params of
        Inl issues \<Rightarrow> InvalidInput issues
      | Inr input \<Rightarrow> Handled (handler t ctx input))"
  by (simp add: invoke_def find_by_name)

lemma invoke_unknown:
  assumes "toolName \<notin> set (map name tools)"
  shows "invoke tools ctx toolName params = ToolNotFound toolName"
proof -
  from assms have "find (\<lambda>t. name t = toolName) tools = None"
    by (auto simp: find_None_iff)
  then show ?thesis by (simp add: invoke_def)
qed

lemma object_rejected:
  assumes "(k, s) \<in> set shape" and "isl (parse s (field (JObj kvs) k))"
  shows "isl (parse (ZObject shape uk) (JObj kvs))"
proof -
  from assms(2) obtain "is" where p: "parse s (field (JObj kvs) k) = Inl is"
    by (cases "parse s (field (JObj kvs) k)") auto
  from parse_Inl_nonempty [OF p] obtain i where "i \<in> set is"
    by (cases "is") auto
  from object_field_rejected [OF assms(1) p this, where uk = uk] show ?thesis
    by (auto simp del: parse.simps)
qed

lemma string_rejected: "isl (parse ZString v) \<longleftrightarrow> (\<forall>s. v \<noteq> JStr s)"
  by (cases v) auto

lemma enum_rejected: "isl (parse (ZEnum vs) v) \<longleftrightarrow> (\<forall>s\<in>set vs. v \<noteq> JStr s)"
  by (cases v) auto

lemma positive_rejected:
  "isl (parse (ZNumber [Positive]) v) \<longleftrightarrow> (\<forall>r. v = JNum r \<longrightarrow> r \<le> 0)"
  by (cases v) (auto simp: finish_def)

lemma optional_positive_rejected:
  "isl (parse (ZOptional (ZNumber [Positive])) v)
     \<longleftrightarrow> v \<noteq> JUndefined \<and> (\<forall>r. v = JNum r \<longrightarrow> r \<le> 0)"
  by (cases v) (auto simp: finish_def)

text \<open>
  The kinds of violation of the placeOrder parameters: a required field that is missing or
  of the wrong type, a value outside an enumeration, a number that is not positive. Each
  of them, in any parameter object, ends the invocation before the handler.
\<close>

lemma placeOrder_violation_kinds:
  assumes "(\<forall>s. field (JObj kvs) ''symbol'' \<noteq> JStr s)
         \<or> field (JObj kvs) ''side'' \<notin> {JStr ''buy'', JStr ''sell''}
         \<or> (\<forall>r. field (JObj kvs) ''size'' = JNum r \<longrightarrow> r \<le> 0)
         \<or> field (JObj kvs) ''type'' \<notin> {JStr ''limit'', JStr ''market''}
         \<or> (\<exists>r. field (JObj kvs) ''price'' = JNum r \<and> r \<le> 0)"
  shows "\<exists>issues. invoke buildServer ctx ''placeOrder'' (JObj kvs) = InvalidInput issues"
proof -
  let ?shape = "[(''symbol'', ZString),
            (''side'', ZEnum [''buy'', ''sell'']),
            (''size'', ZNumber [Positive]),
            (''type'', ZEnum [''limit'', ''market'']),
            (''price'', ZOptional (ZNumber [Positive])),
            (''stop'', ZOptional (ZNumber [Positive])),
            (''meta'',
               ZOptional
                 (ZObject [(''post_only'', ZOptional ZBoolean), (''note'', ZOptional ZString)]
                    Passthrough))]"
  have sch: "inputSchema placeOrder = ZObject ?shape Strip"
    by (simp add: placeOrder_def)
  from assms have "\<exists>k s. (k, s) \<in> set ?shape \<and> isl (parse s (field (JObj kvs) k))"
  proof (elim disjE)
    assume "\<forall>s. field (JObj kvs) ''symbol'' \<noteq> JStr s"
    then have "isl (parse ZString (field (JObj kvs) ''symbol''))"
      unfolding string_rejected .
    then show ?thesis by (intro exI[where x="''symbol''"] exI[where x=ZString]) simp
  next
    assume "field (JObj kvs) ''side'' \<notin> {JStr ''buy'', JStr ''sell''}"
    then have "isl (parse (ZEnum [''buy'', ''sell'']) (field (JObj kvs) ''side''))"
      unfolding enum_rejected by (simp del: field.simps)
    then show ?thesis
      by (intro exI[where x="''side''"] exI[where x="ZEnum [''buy'', ''sell'']"]) simp
  next
    assume "\<forall>r. field (JObj kvs) ''size'' = JNum r \<longrightarrow> r \<le> 0"
    then have "isl (parse (ZNumber [Positive]) (field (JObj kvs) ''size''))"
      unfolding positive_rejected .
    then show ?thesis
      by (intro exI[where x="''size''"] exI[where x="ZNumber [Positive]"]) simp
  next
    assume "field (JObj kvs) ''type'' \<notin> {JStr ''limit'', JStr ''market''}"
    then have "isl (parse (ZEnum [''limit'', ''market'']) (field (JObj kvs) ''type''))"
      unfolding enum_rejected by (simp del: field.simps)
    then show ?thesis
      by (intro exI[where x="''type''"] exI[where x="ZEnum [''limit'', ''market'']"]) simp
  next
    assume "\<exists>r. field (JObj kvs) ''price'' = JNum r \<and> r \<le> 0"
    then have "isl (parse (ZOptional (ZNumber [Positive])) (field (JObj kvs) ''price''))"
      unfolding optional_positive_rejected by (auto simp del: field.simps)
    then show ?thesis
      by (intro exI[where x="''price''"] exI[where x="ZOptional (ZNumber [Positive])"]) simp
  qed
  then have "isl (parse (inputSchema placeOrder) (JObj kvs))"
    unfolding sch using object_rejected by blast
  moreover have "placeOrder \<in> set buildServer" "name placeOrder = ''placeOrder''"
    by (simp_all add: buildServer_def placeOrder_def)
  ultimately show ?thesis
    using invoke_known [OF buildServer_distinct, of placeOrder ctx "JObj kvs"]
    by (cases "parse (inputSchema placeOrder) (JObj kvs)") auto
qed

text \<open>
  The scenario of the spec passes validation on both sides: the parameters satisfy the
  input schema of placeOrder in either server and are handed on unchanged, and the order
  satisfies the order output schema. In the two-tool server a missing type is "limit".
\<close>

lemma scenario_input_valid:
  "parse (inputSchema placeOrder)
     (JObj [(''symbol'', JStr ''btc-usdt''), (''side'', JStr ''buy''), (''size'', JNum 1),
            (''type'', JStr ''limit''), (''price'', JNum 10000)])
   = Inr
     (JObj [(''symbol'', JStr ''btc-usdt''), (''side'', JStr ''buy''), (''size'', JNum 1),
            (''type'', JStr ''limit''), (''price'', JNum 10000)])"
  "parse (inputSchema placeOrder_basic)
     (JObj [(''symbol'', JStr ''btc-usdt''), (''side'', JStr ''buy''), (''size'', JNum 1),
            (''type'', JStr ''limit''), (''price'', JNum 10000)])
   = Inr
     (JObj [(''symbol'', JStr ''btc-usdt''), (''side'', JStr ''buy''), (''size'', JNum 1),
            (''type'', JStr ''limit''), (''price'', JNum 10000)])"
  by (simp_all add: placeOrder_def placeOrder_basic_def finish_def)

lemma scenario_payload_valid:
  "parse orderOutputSchema
     (JObj [(''id'', JStr ''123''), (''symbol'', JStr ''btc-usdt''),
            (''side'', JStr ''buy''), (''size'', JNum 1), (''type'', JStr ''limit''),
            (''price'', JNum 10000), (''status'', JStr ''new''), (''filled'', JNum 0),
            (''created_at'', JStr ''...''), (''updated_at'', JStr ''...'')])
   = Inr
     (JObj [(''id'', JStr ''123''), (''symbol'', JStr ''btc-usdt''),
            (''side'', JStr ''buy''), (''size'', JNum 1), (''type'', JStr ''limit''),
            (''price'', JNum 10000), (''status'', JStr ''new''), (''filled'', JNum 0),
            (''created_at'', JStr ''...''), (''updated_at'', JStr ''...'')])"
  by (simp add: orderOutputSchema_def finish_def)

lemma basic_default_type:
  "parse (inputSchema placeOrder_basic)
     (JObj [(''symbol'', JStr ''btc-usdt''), (''side'', JStr ''buy''), (''size'', JNum 1)])
   = Inr (JObj [(''symbol'', JStr ''btc-usdt''), (''side'', JStr ''buy''), (''size'', JNum 1),
                (''type'', JStr ''limit'')])"
  by (simp add: placeOrder_basic_def finish_def)

lemmas tool_defs =
  getUserBalance_def getBalance_def placeOrder_def cancelOrder_def getKit_def getConstants_def
  getTicker_def getTickers_def getOrderbook_def getOrderbooks_def getTrades_def getUser_def
  getUserTrades_def getOrder_def getOrders_def cancelAllOrders_def getMiniCharts_def
  getQuickTradeQuote_def executeOrder_def getUserBalance_basic_def placeOrder_basic_def

lemmas handler_defs =
  getUserBalance_handler_def getBalance_handler_def placeOrder_handler_def
  cancelOrder_handler_def getKit_handler_def getConstants_handler_def getTicker_handler_def
  getTickers_handler_def getOrderbook_handler_def getOrderbooks_handler_def
  getTrades_handler_def getUser_handler_def getUserTrades_handler_def getOrder_handler_def
  getOrders_handler_def cancelAllOrders_handler_def getMiniCharts_handler_def
  getQuickTradeQuote_handler_def executeOrder_handler_def getUserBalance_handler_basic_def
  placeOrder_handler_basic_def

lemma health_ok:
  "path \<in> set healthPaths \<Longrightarrow>
   app_request createHttpApp mcp ctx GET path reqBody = Some \<lparr> status = 200, body = JObj [(''ok'', JBool True)] \<rparr>"
  by (auto simp: app_request_def createHttpApp_def healthPaths_def mcpPaths_def)

lemma listTools_names: "map fst (listTools tools) = map name tools"
  by (simp add: listTools_def comp_def)

text \<open>
  Without credentials every handler stops at \<open>makeClient\<close>, except that placeOrder checks
  the price of a limit order first.
\<close>

lemma no_credentials_outcome:
  assumes "falsy_env (API_KEY (env ctx)) \<or> falsy_env (API_SECRET (env ctx))"
    and "t \<in> set buildServer \<or> t \<in> set buildServer_basic"
  shows "handler t ctx (JObj kvs) =
           (if name t = ''placeOrder'' \<and> field (JObj kvs) ''type'' = JStr ''limit''
               \<and> \<not> truthy (field (JObj kvs) ''price'')
            then (Inl (Error ''price is required for limit orders''), [])
            else (Inl (Error ''Missing HOLLAEX_API_KEY or HOLLAEX_API_SECRET environment variables.''), []))"
proof -
  have d: "delegate ctx m args k = (Inl (Error ''Missing HOLLAEX_API_KEY or HOLLAEX_API_SECRET environment variables.''), [])" for m args k
    by (rule delegate_throws) (rule makeClient_missing [OF assms(1)])
  from assms(2) show ?thesis
    by (auto simp: buildServer_def buildServer_basic_def tool_defs handler_defs d Let_def
        simp del: field.simps)
qed

lemma limit_above_50:
  assumes "50 < r"
  shows "parse (ZOptional (ZNumber [IsInt, Positive, Max 50])) (JNum r) = Inl is
           \<Longrightarrow> ([], too_big) \<in> set is"
    and "isl (parse (ZOptional (ZNumber [IsInt, Positive, Max 50])) (JNum r))"
  using assms by (auto simp: finish_def split: if_splits)

lemma limit_in_range:
  assumes "1 \<le> n" and "n \<le> 50"
  shows "parse (ZOptional (ZNumber [IsInt, Positive, Max 50])) (JNum (of_int n))
           = Inr (JNum (of_int n))"
  using assms by (simp add: finish_def)

lemma paged_tool_mem:
  "t = getOrders \<or> t = getUserTrades \<Longrightarrow> t \<in> set buildServer"
  by (auto simp: buildServer_def)

lemma paged_tool_schema:
  assumes "t = getOrders \<or> t = getUserTrades"
  shows "\<exists>shape. inputSchema t = ZObject shape Strip
           \<and> (\<forall>s. (''limit'', s) \<in> set shape
                    \<longleftrightarrow> s = ZOptional (ZNumber [IsInt, Positive, Max 50]))"
  using assms
proof
  assume "t = getOrders"
  then show ?thesis by (simp add: getOrders_def)
next
  assume "t = getUserTrades"
  then show ?thesis by (simp add: getUserTrades_def)
qed

lemma paged_tool_limit_only:
  assumes "t = getOrders \<or> t = getUserTrades" and "1 \<le> n" and "n \<le> 50"
  shows "parse (inputSchema t) (JObj [(''limit'', JNum (of_int n))])
             = Inr (JObj [(''limit'', JNum (of_int n))])"
  using assms(1)
proof
  assume "t = getOrders"
  with assms(2,3) show ?thesis by (simp add: getOrders_def finish_def)
next
  assume "t = getUserTrades"
  with assms(2,3) show ?thesis by (simp add: getUserTrades_def finish_def)
qed

section \<open>The limit-price check of placeOrder\<close>

text \<open>
  C1. Whenever placeOrder is invoked with type "limit" and no price parameter, the handler
  throws the error "price is required for limit orders" (the InvalidInput of the spec's
  taxonomy), and it causes no event at all: no client is constructed and \<^verbatim>\<open>createOrder\<close> is
  never called. This holds for both servers, whatever the configuration and the client.
\<close>

theorem placeOrder_limit_without_price:
  assumes "field a ''type'' = JStr ''limit''" and "field a ''price'' = JUndefined"
  shows "placeOrder_handler ctx a = (Inl (Error ''price is required for limit orders''), [])
       \<and> placeOrder_handler_basic ctx a
           = (Inl (Error ''price is required for limit orders''), [])"
  using assms by (simp add: placeOrder_handler_def placeOrder_handler_basic_def)

theorem placeOrder_limit_without_price_witness:
  "placeOrder_handler
     \<lparr> env = \<lparr> API_KEY = Some ''key'', API_SECRET = Some ''secret'',
               API_URL = ''https://api.hollaex.com'',
               WS_URL = ''wss://api.hollaex.com/stream'',
               API_EXPIRES_AFTER = 60 \<rparr>,
       hollaex = (\<lambda>opts method args. Inr (JArr [])),
       numberToString = (\<lambda>r. []) \<rparr>
     (JObj [(''symbol'', JStr ''btc-usdt''), (''side'', JStr ''buy''), (''size'', JNum 1),
            (''type'', JStr ''limit'')])
   = (Inl (Error ''price is required for limit orders''), [])"
  using placeOrder_limit_without_price
    [where a = "(JObj [(''symbol'', JStr ''btc-usdt''), (''side'', JStr ''buy''), (''size'', JNum 1),
                      (''type'', JStr ''limit'')])"]
  by simp

text \<open>
  C9. In placeOrder the limit-price check comes before the credential check: when type is
  "limit" and there is no price, the handler throws the price error even though the API
  key or secret is absent (so that \<open>makeClient\<close> would throw the missing-credentials error);
  the result is not the missing-credentials error, and no client is constructed.
\<close>

theorem limit_check_precedes_credentials:
  assumes "field a ''type'' = JStr ''limit''" and "field a ''price'' = JUndefined"
    and "falsy_env (API_KEY (env ctx)) \<or> falsy_env (API_SECRET (env ctx))"
  shows "makeClient (env ctx) = Inl (Error ''Missing HOLLAEX_API_KEY or HOLLAEX_API_SECRET environment variables.'')
       \<and> placeOrder_handler ctx a = (Inl (Error ''price is required for limit orders''), [])
       \<and> fst (placeOrder_handler ctx a) \<noteq> Inl (Error ''Missing HOLLAEX_API_KEY or HOLLAEX_API_SECRET environment variables.'')
       \<and> placeOrder_handler_basic ctx a
           = (Inl (Error ''price is required for limit orders''), [])
       \<and> fst (placeOrder_handler_basic ctx a) \<noteq> Inl (Error ''Missing HOLLAEX_API_KEY or HOLLAEX_API_SECRET environment variables.'')"
  using assms
  by (simp add: placeOrder_handler_def placeOrder_handler_basic_def makeClient_missing)

theorem limit_check_precedes_credentials_witness:
  "makeClient (env
     \<lparr> env = \<lparr> API_KEY = None, API_SECRET = None,
               API_URL = ''https://api.hollaex.com'',
               WS_URL = ''wss://api.hollaex.com/stream'',
               API_EXPIRES_AFTER = 60 \<rparr>,
       hollaex = (\<lambda>opts method args. Inr (JArr [])),
       numberToString = (\<lambda>r. []) \<rparr>)
   = Inl (Error ''Missing HOLLAEX_API_KEY or HOLLAEX_API_SECRET environment variables.'')
 \<and> placeOrder_handler_basic
     \<lparr> env = \<lparr> API_KEY = None, API_SECRET = None,
               API_URL = ''https://api.hollaex.com'',
               WS_URL = ''wss://api.hollaex.com/stream'',
               API_EXPIRES_AFTER = 60 \<rparr>,
       hollaex = (\<lambda>opts method args. Inr (JArr [])),
       numberToString = (\<lambda>r. []) \<rparr>
     (JObj [(''symbol'', JStr ''btc-usdt''), (''side'', JStr ''buy''), (''size'', JNum 1),
            (''type'', JStr ''limit'')])
   = (Inl (Error ''price is required for limit orders''), [])"
  using limit_check_precedes_credentials
    [where a = "(JObj [(''symbol'', JStr ''btc-usdt''), (''side'', JStr ''buy''), (''size'', JNum 1),
                      (''type'', JStr ''limit'')])"
       and ctx = "\<lparr> env = \<lparr> API_KEY = None, API_SECRET = None,
                            API_URL = ''https://api.hollaex.com'',
                            WS_URL = ''wss://api.hollaex.com/stream'',
                            API_EXPIRES_AFTER = 60 \<rparr>,
                    hollaex = (\<lambda>opts method args. Inr (JArr [])),
                    numberToString = (\<lambda>r. []) \<rparr>"]
  by simp



text \<open>
  C6. The concrete scenario: placeOrder on
  \<^verbatim>\<open>{symbol:"btc-usdt", side:"buy", size:1, type:"limit", price:10000}\<close>, with credentials
  configured and a client whose \<^verbatim>\<open>createOrder\<close> returns the order with id "123", succeeds
  with the text "Placed order 123" and the returned order, unmodified, as structured
  content. The client is called once, with the price 10000.
\<close>

theorem placeOrder_scenario:
  assumes "makeClient (env ctx) = Inr opts"
    and "\<And>args. hollaex ctx opts ''createOrder'' args = Inr
           (JObj [(''id'', JStr ''123''), (''symbol'', JStr ''btc-usdt''),
                  (''side'', JStr ''buy''), (''size'', JNum 1), (''type'', JStr ''limit''),
                  (''price'', JNum 10000), (''status'', JStr ''new''), (''filled'', JNum 0),
                  (''created_at'', JStr ''...''), (''updated_at'', JStr ''...'')])"
  shows "placeOrder_handler ctx
           (JObj [(''symbol'', JStr ''btc-usdt''), (''side'', JStr ''buy''), (''size'', JNum 1),
                  (''type'', JStr ''limit''), (''price'', JNum 10000)])
         = (Inr \<lparr> content = [Text ''Placed order 123''],
                  structuredContent =
                    (JObj [(''id'', JStr ''123''), (''symbol'', JStr ''btc-usdt''),
                           (''side'', JStr ''buy''), (''size'', JNum 1), (''type'', JStr ''limit''),
                           (''price'', JNum 10000), (''status'', JStr ''new''), (''filled'', JNum 0),
                           (''created_at'', JStr ''...''), (''updated_at'', JStr ''...'')]) \<rparr>,
            [Construct opts,
             Invoke ''createOrder''
               [JStr ''btc-usdt'', JStr ''buy'', JNum 1, JStr ''limit'', JNum 10000,
                JUndefined]])
       \<and> placeOrder_handler_basic ctx
           (JObj [(''symbol'', JStr ''btc-usdt''), (''side'', JStr ''buy''), (''size'', JNum 1),
                  (''type'', JStr ''limit''), (''price'', JNum 10000)])
         = (Inr \<lparr> content = [Text ''Placed order 123''],
                  structuredContent =
                    (JObj [(''id'', JStr ''123''), (''symbol'', JStr ''btc-usdt''),
                           (''side'', JStr ''buy''), (''size'', JNum 1), (''type'', JStr ''limit''),
                           (''price'', JNum 10000), (''status'', JStr ''new''), (''filled'', JNum 0),
                           (''created_at'', JStr ''...''), (''updated_at'', JStr ''...'')]) \<rparr>,
            [Construct opts,
             Invoke ''createOrder''
               [JStr ''btc-usdt'', JStr ''buy'', JNum 1, JStr ''limit'', JNum 10000]])"
  using assms
  by (simp add: placeOrder_handler_def placeOrder_handler_basic_def delegate_def placed_def
      createOrder_opts_def formatResponse_def Let_def)

theorem placeOrder_scenario_witness:
  "placeOrder_handler
     \<lparr> env = \<lparr> API_KEY = Some ''key'', API_SECRET = Some ''secret'',
               API_URL = ''https://api.hollaex.com'',
               WS_URL = ''wss://api.hollaex.com/stream'',
               API_EXPIRES_AFTER = 60 \<rparr>,
       hollaex = (\<lambda>opts method args. Inr
           (JObj [(''id'', JStr ''123''), (''symbol'', JStr ''btc-usdt''),
                  (''side'', JStr ''buy''), (''size'', JNum 1), (''type'', JStr ''limit''),
                  (''price'', JNum 10000), (''status'', JStr ''new''), (''filled'', JNum 0),
                  (''created_at'', JStr ''...''), (''updated_at'', JStr ''...'')])),
       numberToString = (\<lambda>r. []) \<rparr>
     (JObj [(''symbol'', JStr ''btc-usdt''), (''side'', JStr ''buy''), (''size'', JNum 1),
            (''type'', JStr ''limit''), (''price'', JNum 10000)])
   = (Inr \<lparr> content = [Text ''Placed order 123''],
            structuredContent =
              (JObj [(''id'', JStr ''123''), (''symbol'', JStr ''btc-usdt''),
                     (''side'', JStr ''buy''), (''size'', JNum 1), (''type'', JStr ''limit''),
                     (''price'', JNum 10000), (''status'', JStr ''new''), (''filled'', JNum 0),
                     (''created_at'', JStr ''...''), (''updated_at'', JStr ''...'')]) \<rparr>,
      [Construct
         \<lparr> apiURL = ''https://api.hollaex.com'',
           wsURL = ''wss://api.hollaex.com/stream'',
           apiKey = ''key'', apiSecret = ''secret'', apiExpiresAfter = 60 \<rparr>,
       Invoke ''createOrder''
         [JStr ''btc-usdt'', JStr ''buy'', JNum 1, JStr ''limit'', JNum 10000, JUndefined]])"
  using placeOrder_scenario
    [where ctx = "\<lparr> env = \<lparr> API_KEY = Some ''key'', API_SECRET = Some ''secret'',
                            API_URL = ''https://api.hollaex.com'',
                            WS_URL = ''wss://api.hollaex.com/stream'',
                            API_EXPIRES_AFTER = 60 \<rparr>,
                    hollaex = (\<lambda>opts method args. Inr
                        (JObj [(''id'', JStr ''123''), (''symbol'', JStr ''btc-usdt''),
                               (''side'', JStr ''buy''), (''size'', JNum 1), (''type'', JStr ''limit''),
                               (''price'', JNum 10000), (''status'', JStr ''new''), (''filled'', JNum 0),
                               (''created_at'', JStr ''...''), (''updated_at'', JStr ''...'')])),
                    numberToString = (\<lambda>r. []) \<rparr>"
       and opts = "\<lparr> apiURL = ''https://api.hollaex.com'',
                     wsURL = ''wss://api.hollaex.com/stream'',
                     apiKey = ''key'', apiSecret = ''secret'', apiExpiresAfter = 60 \<rparr>"]
  by (simp add: makeClient_def)

section \<open>Handlers without credentials\<close>

text \<open>
  C2, as the code has it. When the API key or the API secret is absent (unset or empty),
  every tool handler of either server, on any parameter object, fails before any network
  action, with no client constructed and no delegated operation attempted: with the
  missing-credentials error, except that placeOrder with type "limit" and no (or a falsy)
  price fails with the price error instead. Tool listing gives the catalog, and a GET on
  a liveness path answers 200 with \<^verbatim>\<open>{ok: true}\<close>, with no credentials configured.
\<close>

theorem handlers_without_credentials:
  assumes "falsy_env (API_KEY (env ctx)) \<or> falsy_env (API_SECRET (env ctx))"
  shows "(t \<in> set buildServer \<or> t \<in> set buildServer_basic \<longrightarrow>
           handler t ctx (JObj kvs) =
             (if name t = ''placeOrder'' \<and> field (JObj kvs) ''type'' = JStr ''limit''
                 \<and> \<not> truthy (field (JObj kvs) ''price'')
              then (Inl (Error ''price is required for limit orders''), [])
              else (Inl (Error ''Missing HOLLAEX_API_KEY or HOLLAEX_API_SECRET environment variables.''), [])))
       \<and> map fst (listTools buildServer) =
           [''getUserBalance'', ''getBalance'', ''placeOrder'', ''cancelOrder'', ''getKit'',
            ''getConstants'', ''getTicker'', ''getTickers'', ''getOrderbook'',
            ''getOrderbooks'', ''getTrades'', ''getUser'', ''getUserTrades'', ''getOrder'',
            ''getOrders'', ''cancelAllOrders'', ''getMiniCharts'', ''getQuickTradeQuote'',
            ''executeOrder'']
       \<and> map fst (listTools buildServer_basic) = [''getUserBalance'', ''placeOrder'']
       \<and> (path \<in> set healthPaths \<longrightarrow>
            app_request createHttpApp mcp ctx GET path reqBody = Some \<lparr> status = 200, body = JObj [(''ok'', JBool True)] \<rparr>)"
  using no_credentials_outcome [OF assms, of t kvs]
  by (simp add: listTools_names buildServer_names buildServer_basic_names health_ok
      del: field.simps)

theorem handlers_without_credentials_witness:
  "getOrders \<in> set buildServer
 \<and> handler getOrders
     \<lparr> env = \<lparr> API_KEY = None, API_SECRET = None,
               API_URL = ''https://api.hollaex.com'',
               WS_URL = ''wss://api.hollaex.com/stream'',
               API_EXPIRES_AFTER = 60 \<rparr>,
       hollaex = (\<lambda>opts method args. Inr (JArr [])),
       numberToString = (\<lambda>r. []) \<rparr>
     (JObj [(''limit'', JNum 10)])
   = (Inl (Error ''Missing HOLLAEX_API_KEY or HOLLAEX_API_SECRET environment variables.''), [])
 \<and> app_request createHttpApp (\<lambda>ctx reqBody. Inl (Error ''Missing HOLLAEX_API_KEY or HOLLAEX_API_SECRET environment variables.''))
     \<lparr> env = \<lparr> API_KEY = None, API_SECRET = None,
               API_URL = ''https://api.hollaex.com'',
               WS_URL = ''wss://api.hollaex.com/stream'',
               API_EXPIRES_AFTER = 60 \<rparr>,
       hollaex = (\<lambda>opts method args. Inr (JArr [])),
       numberToString = (\<lambda>r. []) \<rparr>
     GET ''/health'' JUndefined
   = Some \<lparr> status = 200, body = JObj [(''ok'', JBool True)] \<rparr>"
  using handlers_without_credentials
    [where t = getOrders and kvs = "[(''limit'', JNum 10)]" and path = "''/health''"
       and reqBody = JUndefined
       and mcp = "\<lambda>ctx reqBody. Inl (Error ''Missing HOLLAEX_API_KEY or HOLLAEX_API_SECRET environment variables.'')"
       and ctx = "\<lparr> env = \<lparr> API_KEY = None, API_SECRET = None,
                            API_URL = ''https://api.hollaex.com'',
                            WS_URL = ''wss://api.hollaex.com/stream'',
                            API_EXPIRES_AFTER = 60 \<rparr>,
                    hollaex = (\<lambda>opts method args. Inr (JArr [])),
                    numberToString = (\<lambda>r. []) \<rparr>"]
  by (simp add: buildServer_def healthPaths_def getOrders_def)

text \<open>
  C2 as stated fails: with neither key nor secret configured, placeOrder on valid
  parameters of type "limit" without a price does not fail with the missing-credentials
  error; it fails with the price error.
\<close>

theorem credentials_not_first_counterexample:
  "placeOrder \<in> set buildServer
 \<and> makeClient (env
     \<lparr> env = \<lparr> API_KEY = None, API_SECRET = None,
               API_URL = ''https://api.hollaex.com'',
               WS_URL = ''wss://api.hollaex.com/stream'',
               API_EXPIRES_AFTER = 60 \<rparr>,
       hollaex = (\<lambda>opts method args. Inr (JArr [])),
       numberToString = (\<lambda>r. []) \<rparr>)
   = Inl (Error ''Missing HOLLAEX_API_KEY or HOLLAEX_API_SECRET environment variables.'')
 \<and> parse (inputSchema placeOrder)
     (JObj [(''symbol'', JStr ''btc-usdt''), (''side'', JStr ''buy''), (''size'', JNum 1),
            (''type'', JStr ''limit'')])
   = Inr
     (JObj [(''symbol'', JStr ''btc-usdt''), (''side'', JStr ''buy''), (''size'', JNum 1),
            (''type'', JStr ''limit'')])
 \<and> handler placeOrder
     \<lparr> env = \<lparr> API_KEY = None, API_SECRET = None,
               API_URL = ''https://api.hollaex.com'',
               WS_URL = ''wss://api.hollaex.com/stream'',
               API_EXPIRES_AFTER = 60 \<rparr>,
       hollaex = (\<lambda>opts method args. Inr (JArr [])),
       numberToString = (\<lambda>r. []) \<rparr>
     (JObj [(''symbol'', JStr ''btc-usdt''), (''side'', JStr ''buy''), (''size'', JNum 1),
            (''type'', JStr ''limit'')])
   = (Inl (Error ''price is required for limit orders''), [])
 \<and> fst (handler placeOrder
     \<lparr> env = \<lparr> API_KEY = None, API_SECRET = None,
               API_URL = ''https://api.hollaex.com'',
               WS_URL = ''wss://api.hollaex.com/stream'',
               API_EXPIRES_AFTER = 60 \<rparr>,
       hollaex = (\<lambda>opts method args. Inr (JArr [])),
       numberToString = (\<lambda>r. []) \<rparr>
     (JObj [(''symbol'', JStr ''btc-usdt''), (''side'', JStr ''buy''), (''size'', JNum 1),
            (''type'', JStr ''limit'')]))
   \<noteq> Inl (Error ''Missing HOLLAEX_API_KEY or HOLLAEX_API_SECRET environment variables.'')"
  by (simp add: buildServer_def placeOrder_def placeOrder_handler_def makeClient_def
      finish_def)

section \<open>Rejection before the handler\<close>

text \<open>
  C3. For every tool of either server and every parameter value that violates the tool's
  declared input schema, the invocation is \<open>InvalidInput\<close> carrying the violations found,
  of which there is at least one; the result is not \<open>Handled\<close>, so the handler did not run
  and the client was not touched.
\<close>

theorem schema_violation_rejected:
  assumes "tools = buildServer \<or> tools = buildServer_basic"
    and "t \<in> set tools"
    and "parse (inputSchema t) params = Inl issues"
  shows "invoke tools ctx (name t) params = InvalidInput issues \<and> issues \<noteq> []
       \<and> (\<forall>result. invoke tools ctx (name t) params \<noteq> Handled result)"
proof -
  from assms(1) have "distinct (map name tools)"
    using buildServer_distinct buildServer_basic_distinct by auto
  from invoke_known [OF this assms(2)] assms(3) parse_Inl_nonempty [OF assms(3)]
  show ?thesis by simp
qed

text \<open>
  At placeOrder, one violation of each kind: a missing required field, a value outside an
  enumeration, a number that is not positive, a value of the wrong type.
\<close>

theorem schema_violation_rejected_witness:
  "placeOrder \<in> set buildServer
 \<and> parse (inputSchema placeOrder)
     (JObj [(''side'', JStr ''hold''), (''size'', JNum (- 1)), (''type'', JNum 1)])
   = Inl [([Key ''symbol''], invalid_type), ([Key ''side''], invalid_enum_value),
          ([Key ''size''], too_small), ([Key ''type''], invalid_type)]
 \<and> invoke buildServer
     \<lparr> env = \<lparr> API_KEY = Some ''key'', API_SECRET = Some ''secret'',
               API_URL = ''https://api.hollaex.com'',
               WS_URL = ''wss://api.hollaex.com/stream'',
               API_EXPIRES_AFTER = 60 \<rparr>,
       hollaex = (\<lambda>opts method args. Inr (JArr [])),
       numberToString = (\<lambda>r. []) \<rparr>
     ''placeOrder''
     (JObj [(''side'', JStr ''hold''), (''size'', JNum (- 1)), (''type'', JNum 1)])
   = InvalidInput [([Key ''symbol''], invalid_type), ([Key ''side''], invalid_enum_value),
                   ([Key ''size''], too_small), ([Key ''type''], invalid_type)]"
proof -
  have p: "parse (inputSchema placeOrder)
       (JObj [(''side'', JStr ''hold''), (''size'', JNum (- 1)), (''type'', JNum 1)])
     = Inl [([Key ''symbol''], invalid_type), ([Key ''side''], invalid_enum_value),
            ([Key ''size''], too_small), ([Key ''type''], invalid_type)]"
    by (simp add: placeOrder_def finish_def)
  have m: "placeOrder \<in> set buildServer" by (simp add: buildServer_def)
  have n: "name placeOrder = ''placeOrder''" by (simp add: placeOrder_def)
  from schema_violation_rejected
    [OF _ m p, where ctx = "\<lparr> env = \<lparr> API_KEY = Some ''key'', API_SECRET = Some ''secret'',
                                      API_URL = ''https://api.hollaex.com'',
                                      WS_URL = ''wss://api.hollaex.com/stream'',
                                      API_EXPIRES_AFTER = 60 \<rparr>,
                              hollaex = (\<lambda>opts method args. Inr (JArr [])),
                              numberToString = (\<lambda>r. []) \<rparr>"]
    m n p
  show ?thesis by simp
qed

text \<open>
  C7. For every tool name outside the catalog, the invocation is \<open>ToolNotFound\<close> (whatever
  the parameters), and this result differs from the \<open>InvalidInput\<close> that a schema
  violation on any tool of the catalog produces.
\<close>

theorem unknown_tool_not_found:
  assumes "tools = buildServer \<or> tools = buildServer_basic"
    and "toolName \<notin> set (map name tools)"
  shows "invoke tools ctx toolName params = ToolNotFound toolName
       \<and> (t \<in> set tools \<and> parse (inputSchema t) params' = Inl issues \<longrightarrow>
            invoke tools ctx (name t) params' = InvalidInput issues
            \<and> invoke tools ctx (name t) params' \<noteq> invoke tools ctx toolName params)"
proof -
  from assms(1) have "distinct (map name tools)"
    using buildServer_distinct buildServer_basic_distinct by auto
  then show ?thesis
    by (simp add: invoke_unknown [OF assms(2)] invoke_known)
qed

theorem unknown_tool_not_found_witness:
  "''withdraw'' \<notin> set (map name buildServer)
 \<and> invoke buildServer
     \<lparr> env = \<lparr> API_KEY = Some ''key'', API_SECRET = Some ''secret'',
               API_URL = ''https://api.hollaex.com'',
               WS_URL = ''wss://api.hollaex.com/stream'',
               API_EXPIRES_AFTER = 60 \<rparr>,
       hollaex = (\<lambda>opts method args. Inr (JArr [])),
       numberToString = (\<lambda>r. []) \<rparr>
     ''withdraw'' (JObj [])
   = ToolNotFound ''withdraw''
 \<and> getTicker \<in> set buildServer
 \<and> parse (inputSchema getTicker) (JObj []) = Inl [([Key ''symbol''], invalid_type)]
 \<and> invoke buildServer
     \<lparr> env = \<lparr> API_KEY = Some ''key'', API_SECRET = Some ''secret'',
               API_URL = ''https://api.hollaex.com'',
               WS_URL = ''wss://api.hollaex.com/stream'',
               API_EXPIRES_AFTER = 60 \<rparr>,
       hollaex = (\<lambda>opts method args. Inr (JArr [])),
       numberToString = (\<lambda>r. []) \<rparr>
     ''getTicker'' (JObj [])
   = InvalidInput [([Key ''symbol''], invalid_type)]"
proof -
  have u: "''withdraw'' \<notin> set (map name buildServer)"
    by (simp add: buildServer_names)
  have m: "getTicker \<in> set buildServer" by (simp add: buildServer_def)
  have p: "parse (inputSchema getTicker) (JObj []) = Inl [([Key ''symbol''], invalid_type)]"
    by (simp add: getTicker_def finish_def)
  have n: "name getTicker = ''getTicker''" by (simp add: getTicker_def)
  from unknown_tool_not_found
    [OF _ u, where t = getTicker and params = "JObj []" and params' = "JObj []"
       and issues = "[([Key ''symbol''], invalid_type)]"
       and ctx = "\<lparr> env = \<lparr> API_KEY = Some ''key'', API_SECRET = Some ''secret'',
                            API_URL = ''https://api.hollaex.com'',
                            WS_URL = ''wss://api.hollaex.com/stream'',
                            API_EXPIRES_AFTER = 60 \<rparr>,
                    hollaex = (\<lambda>opts method args. Inr (JArr [])),
                    numberToString = (\<lambda>r. []) \<rparr>"]
    u m p n
  show ?thesis by simp
qed

section \<open>The page size of getOrders and getUserTrades\<close>

text \<open>
  C5. For getOrders and getUserTrades: every integer limit from 1 to 50 passes input
  validation (a request carrying just that limit reaches the handler, and in any request
  carrying it no violation is reported at the key limit); every limit above 50 is
  rejected by the schema, in any request, with \<open>InvalidInput\<close> naming the key limit as too
  big, so the handler does not run.
\<close>

theorem limit_at_most_50:
  assumes t: "t = getOrders \<or> t = getUserTrades"
  shows "(1 \<le> n \<and> n \<le> 50 \<longrightarrow>
            invoke buildServer ctx (name t) (JObj [(''limit'', JNum (of_int n))])
              = Handled (handler t ctx (JObj [(''limit'', JNum (of_int n))]))
          \<and> (map_of kvs ''limit'' = Some (JNum (of_int n))
                \<and> parse (inputSchema t) (JObj kvs) = Inl issues
                \<longrightarrow> (Key ''limit'' # p, c) \<notin> set issues))
       \<and> (50 < r \<and> map_of kvs' ''limit'' = Some (JNum r) \<longrightarrow>
            (\<exists>issues'. parse (inputSchema t) (JObj kvs') = Inl issues'
               \<and> invoke buildServer ctx (name t) (JObj kvs') = InvalidInput issues'
               \<and> ([Key ''limit''], too_big) \<in> set issues'))"
proof -
  note mem = paged_tool_mem [OF t]
  from paged_tool_schema [OF t] obtain shape where
      sch: "inputSchema t = ZObject shape Strip"
      and lim: "\<And>s. (''limit'', s) \<in> set shape
                  \<longleftrightarrow> s = ZOptional (ZNumber [IsInt, Positive, Max 50])"
    by blast
  have inv: "invoke buildServer ctx (name t) params =
       (case parse (inputSchema t) params of
          Inl issues \<Rightarrow> InvalidInput issues
        | Inr input \<Rightarrow> Handled (handler t ctx input))" for params
    by (rule invoke_known [OF buildServer_distinct mem])
  have accept: "invoke buildServer ctx (name t) (JObj [(''limit'', JNum (of_int n))])
              = Handled (handler t ctx (JObj [(''limit'', JNum (of_int n))]))"
    if "1 \<le> n" "n \<le> 50"
    by (simp add: inv paged_tool_limit_only [OF t that])
  have clean: "(Key ''limit'' # p, c) \<notin> set issues"
    if n: "1 \<le> n" "n \<le> 50" and l: "map_of kvs ''limit'' = Some (JNum (of_int n))"
      and p: "parse (inputSchema t) (JObj kvs) = Inl issues" for kvs issues p c
  proof
    assume "(Key ''limit'' # p, c) \<in> set issues"
    from object_issue_origin [OF p [unfolded sch] this] obtain k s "is" where
        "(k, s) \<in> set shape" "parse s (field (JObj kvs) k) = Inl is"
        "\<exists>j\<in>set is. (Key ''limit'' # p, c) = (Key k # fst j, snd j)"
      by blast
    then have "(''limit'', s) \<in> set shape" "parse s (JNum (of_int n)) = Inl is"
      using l by auto
    with lim limit_in_range [OF n] show False by simp
  qed
  have reject: "\<exists>issues. parse (inputSchema t) (JObj kvs) = Inl issues
               \<and> invoke buildServer ctx (name t) (JObj kvs) = InvalidInput issues
               \<and> ([Key ''limit''], too_big) \<in> set issues"
    if r: "50 < r" and l: "map_of kvs ''limit'' = Some (JNum r)" for kvs
  proof -
    let ?s = "ZOptional (ZNumber [IsInt, Positive, Max 50])"
    from limit_above_50(2) [OF r] obtain "is" where bad: "parse ?s (JNum r) = Inl is"
      by (cases "parse ?s (JNum r)") auto
    from limit_above_50(1) [OF r bad] have big: "([], too_big) \<in> set is" .
    have "(''limit'', ?s) \<in> set shape" by (simp add: lim)
    moreover have "parse ?s (field (JObj kvs) ''limit'') = Inl is"
      using l bad by simp
    ultimately obtain issues where "parse (ZObject shape Strip) (JObj kvs) = Inl issues"
        "(Key ''limit'' # fst ([]::segment list, too_big), snd ([]::segment list, too_big))
           \<in> set issues"
      using object_field_rejected [OF _ _ big] by blast
    then show ?thesis by (simp add: inv sch)
  qed
  from accept clean reject show ?thesis by blast
qed

theorem limit_at_most_50_witness:
  "invoke buildServer
     \<lparr> env = \<lparr> API_KEY = Some ''key'', API_SECRET = Some ''secret'',
               API_URL = ''https://api.hollaex.com'',
               WS_URL = ''wss://api.hollaex.com/stream'',
               API_EXPIRES_AFTER = 60 \<rparr>,
       hollaex = (\<lambda>opts method args. Inr (JArr [])),
       numberToString = (\<lambda>r. []) \<rparr>
     ''getOrders'' (JObj [(''limit'', JNum 50)])
   = Handled (getOrders_handler
       \<lparr> env = \<lparr> API_KEY = Some ''key'', API_SECRET = Some ''secret'',
                 API_URL = ''https://api.hollaex.com'',
                 WS_URL = ''wss://api.hollaex.com/stream'',
                 API_EXPIRES_AFTER = 60 \<rparr>,
         hollaex = (\<lambda>opts method args. Inr (JArr [])),
         numberToString = (\<lambda>r. []) \<rparr>
       (JObj [(''limit'', JNum 50)]))
 \<and> parse (inputSchema getOrders) (JObj [(''limit'', JNum 50), (''page'', JNum 0)])
   = Inl [([Key ''page''], too_small)]
 \<and> parse (inputSchema getOrders) (JObj [(''limit'', JNum 51)])
   = Inl [([Key ''limit''], too_big)]
 \<and> invoke buildServer
     \<lparr> env = \<lparr> API_KEY = Some ''key'', API_SECRET = Some ''secret'',
               API_URL = ''https://api.hollaex.com'',
               WS_URL = ''wss://api.hollaex.com/stream'',
               API_EXPIRES_AFTER = 60 \<rparr>,
       hollaex = (\<lambda>opts method args. Inr (JArr [])),
       numberToString = (\<lambda>r. []) \<rparr>
     ''getOrders'' (JObj [(''limit'', JNum 51)])
   = InvalidInput [([Key ''limit''], too_big)]"
proof -
  let ?ctx = "\<lparr> env = \<lparr> API_KEY = Some ''key'', API_SECRET = Some ''secret'',
                        API_URL = ''https://api.hollaex.com'',
                        WS_URL = ''wss://api.hollaex.com/stream'',
                        API_EXPIRES_AFTER = 60 \<rparr>,
                hollaex = (\<lambda>opts method args. Inr (JArr [])),
                numberToString = (\<lambda>r. []) \<rparr>"
  have p: "parse (inputSchema getOrders) (JObj [(''limit'', JNum 51)])
             = Inl [([Key ''limit''], too_big)]"
    by (simp add: getOrders_def finish_def)
  have q: "parse (inputSchema getOrders) (JObj [(''limit'', JNum 50), (''page'', JNum 0)])
             = Inl [([Key ''page''], too_small)]"
    by (simp add: getOrders_def finish_def)
  have h: "handler getOrders = getOrders_handler" "name getOrders = ''getOrders''"
    by (simp_all add: getOrders_def)
  note T = limit_at_most_50
    [where t = getOrders and n = 50 and r = 51 and kvs' = "[(''limit'', JNum 51)]"
       and kvs = "[(''limit'', JNum 50), (''page'', JNum 0)]"
       and issues = "[([Key ''page''], too_small)]" and p = "[]" and c = too_big
       and ctx = ?ctx]
  from T have acc: "invoke buildServer ?ctx (name getOrders) (JObj [(''limit'', JNum 50)])
              = Handled (handler getOrders ?ctx (JObj [(''limit'', JNum 50)]))"
    by simp
  from T have "\<exists>issues.
        parse (inputSchema getOrders) (JObj [(''limit'', JNum 51)]) = Inl issues
        \<and> invoke buildServer ?ctx (name getOrders) (JObj [(''limit'', JNum 51)])
            = InvalidInput issues"
    by (auto simp del: parse.simps)
  with p q acc h show ?thesis
    by auto
qed

section \<open>The liveness routes\<close>

text \<open>
  C8. Every GET request to a liveness path, \<^verbatim>\<open>/health\<close> or \<^verbatim>\<open>/api/mcp/health\<close>, is answered
  with status 200 and the body \<^verbatim>\<open>{ok: true}\<close>, whatever the protocol transport, the
  surroundings and the request body are; in particular when the key or the secret is
  absent, where a tool handler fails with the missing-credentials error.
\<close>

theorem liveness_always_ok:
  "(path \<in> set healthPaths \<longrightarrow>
      app_request createHttpApp mcp ctx GET path reqBody = Some \<lparr> status = 200, body = JObj [(''ok'', JBool True)] \<rparr>)
 \<and> app_request createHttpApp mcp ctx GET ''/health'' reqBody = Some \<lparr> status = 200, body = JObj [(''ok'', JBool True)] \<rparr>
 \<and> app_request createHttpApp mcp ctx GET ''/api/mcp/health'' reqBody = Some \<lparr> status = 200, body = JObj [(''ok'', JBool True)] \<rparr>
 \<and> (falsy_env (API_KEY (env ctx)) \<or> falsy_env (API_SECRET (env ctx)) \<longrightarrow>
      handler getUserBalance ctx a = (Inl (Error ''Missing HOLLAEX_API_KEY or HOLLAEX_API_SECRET environment variables.''), [])
      \<and> app_request createHttpApp mcp ctx GET ''/health'' reqBody = Some \<lparr> status = 200, body = JObj [(''ok'', JBool True)] \<rparr>
      \<and> app_request createHttpApp mcp ctx GET ''/api/mcp/health'' reqBody = Some \<lparr> status = 200, body = JObj [(''ok'', JBool True)] \<rparr>)"
  by (simp add: health_ok healthPaths_def getUserBalance_def getUserBalance_handler_def
      delegate_throws makeClient_missing)

theorem liveness_always_ok_witness:
  "''/api/mcp/health'' \<in> set healthPaths
 \<and> app_request createHttpApp (\<lambda>ctx reqBody. Inl (Error ''Missing HOLLAEX_API_KEY or HOLLAEX_API_SECRET environment variables.''))
     \<lparr> env = \<lparr> API_KEY = None, API_SECRET = None,
               API_URL = ''https://api.hollaex.com'',
               WS_URL = ''wss://api.hollaex.com/stream'',
               API_EXPIRES_AFTER = 60 \<rparr>,
       hollaex = (\<lambda>opts method args. Inr (JArr [])),
       numberToString = (\<lambda>r. []) \<rparr>
     GET ''/api/mcp/health'' JUndefined
   = Some \<lparr> status = 200, body = JObj [(''ok'', JBool True)] \<rparr>
 \<and> handler getUserBalance
     \<lparr> env = \<lparr> API_KEY = None, API_SECRET = None,
               API_URL = ''https://api.hollaex.com'',
               WS_URL = ''wss://api.hollaex.com/stream'',
               API_EXPIRES_AFTER = 60 \<rparr>,
       hollaex = (\<lambda>opts method args. Inr (JArr [])),
       numberToString = (\<lambda>r. []) \<rparr>
     (JObj [])
   = (Inl (Error ''Missing HOLLAEX_API_KEY or HOLLAEX_API_SECRET environment variables.''), [])"
  using liveness_always_ok
    [where path = "''/api/mcp/health''" and reqBody = JUndefined and a = "JObj []"
       and mcp = "\<lambda>ctx reqBody. Inl (Error ''Missing HOLLAEX_API_KEY or HOLLAEX_API_SECRET environment variables.'')"
       and ctx = "\<lparr> env = \<lparr> API_KEY = None, API_SECRET = None,
                            API_URL = ''https://api.hollaex.com'',
                            WS_URL = ''wss://api.hollaex.com/stream'',
                            API_EXPIRES_AFTER = 60 \<rparr>,
                    hollaex = (\<lambda>opts method args. Inr (JArr [])),
                    numberToString = (\<lambda>r. []) \<rparr>"]
  by (simp add: healthPaths_def)

section \<open>The two balance tools\<close>

text \<open>
  C10. In the full server the tools getUserBalance and getBalance declare the same title,
  the same description, the same input schema (the empty object) and the same output
  schema, and their handlers are the same function: on every configuration, client and
  input they give the same outcome. When the client's \<^verbatim>\<open>getBalance\<close> resolves with a
  balances object, both answer "Fetched user balances." with that object as structured
  content.
\<close>

theorem balance_tools_identical:
  "title getUserBalance = title getBalance
 \<and> description getUserBalance = description getBalance
 \<and> inputSchema getUserBalance = ZObject [] Strip
 \<and> inputSchema getBalance = ZObject [] Strip
 \<and> outputSchema getUserBalance = outputSchema getBalance
 \<and> handler getUserBalance = handler getBalance
 \<and> (makeClient (env ctx) = Inr opts \<and> hollaex ctx opts ''getBalance'' [] = Inr balances \<longrightarrow>
      handler getUserBalance ctx a
        = (Inr \<lparr> content = [Text ''Fetched user balances.''],
                  structuredContent = balances \<rparr>,
           [Construct opts, Invoke ''getBalance'' []])
      \<and> handler getBalance ctx a
        = (Inr \<lparr> content = [Text ''Fetched user balances.''],
                  structuredContent = balances \<rparr>,
           [Construct opts, Invoke ''getBalance'' []]))"
proof -
  have "getUserBalance_handler = getBalance_handler"
    by (intro ext) (simp add: getUserBalance_handler_def getBalance_handler_def)
  then show ?thesis
    by (simp add: getUserBalance_def getBalance_def getBalance_handler_def delegate_settles
        formatResponse_def)
qed

theorem balance_tools_identical_witness:
  "handler getUserBalance
     \<lparr> env = \<lparr> API_KEY = Some ''key'', API_SECRET = Some ''secret'',
               API_URL = ''https://api.hollaex.com'',
               WS_URL = ''wss://api.hollaex.com/stream'',
               API_EXPIRES_AFTER = 60 \<rparr>,
       hollaex = (\<lambda>opts method args. Inr
           (JObj [(''btc_balance'', JNum (3 / 2)), (''btc_available'', JNum 1)])),
       numberToString = (\<lambda>r. []) \<rparr>
     (JObj [])
   = (Inr \<lparr> content = [Text ''Fetched user balances.''],
            structuredContent =
              JObj [(''btc_balance'', JNum (3 / 2)), (''btc_available'', JNum 1)] \<rparr>,
      [Construct
         \<lparr> apiURL = ''https://api.hollaex.com'',
           wsURL = ''wss://api.hollaex.com/stream'',
           apiKey = ''key'', apiSecret = ''secret'', apiExpiresAfter = 60 \<rparr>,
       Invoke ''getBalance'' []])
 \<and> handler getBalance
     \<lparr> env = \<lparr> API_KEY = Some ''key'', API_SECRET = Some ''secret'',
               API_URL = ''https://api.hollaex.com'',
               WS_URL = ''wss://api.hollaex.com/stream'',
               API_EXPIRES_AFTER = 60 \<rparr>,
       hollaex = (\<lambda>opts method args. Inr
           (JObj [(''btc_balance'', JNum (3 / 2)), (''btc_available'', JNum 1)])),
       numberToString = (\<lambda>r. []) \<rparr>
     (JObj [])
   = handler getUserBalance
     \<lparr> env = \<lparr> API_KEY = Some ''key'', API_SECRET = Some ''secret'',
               API_URL = ''https://api.hollaex.com'',
               WS_URL = ''wss://api.hollaex.com/stream'',
               API_EXPIRES_AFTER = 60 \<rparr>,
       hollaex = (\<lambda>opts method args. Inr
           (JObj [(''btc_balance'', JNum (3 / 2)), (''btc_available'', JNum 1)])),
       numberToString = (\<lambda>r. []) \<rparr>
     (JObj [])"
  using balance_tools_identical
    [where a = "JObj []"
       and balances = "JObj [(''btc_balance'', JNum (3 / 2)), (''btc_available'', JNum 1)]"
       and ctx = "\<lparr> env = \<lparr> API_KEY = Some ''key'', API_SECRET = Some ''secret'',
                            API_URL = ''https://api.hollaex.com'',
                            WS_URL = ''wss://api.hollaex.com/stream'',
                            API_EXPIRES_AFTER = 60 \<rparr>,
                    hollaex = (\<lambda>opts method args. Inr
                        (JObj [(''btc_balance'', JNum (3 / 2)), (''btc_available'', JNum 1)])),
                    numberToString = (\<lambda>r. []) \<rparr>"
       and opts = "\<lparr> apiURL = ''https://api.hollaex.com'',
                     wsURL = ''wss://api.hollaex.com/stream'',
                     apiKey = ''key'', apiSecret = ''secret'', apiExpiresAfter = 60 \<rparr>"]
  by (simp add: makeClient_def)

end
